theory Spec2Isabelle
  imports Complex_Main
begin

section \<open>Risk fusion: \<open>backend/models/risk_assessment.py\<close>\<close>

text \<open>
  Python numbers (\<open>int\<close> and \<open>float\<close> mixed freely in the metric dictionaries) are modelled
  as exact reals: comparisons, \<open>min\<close>, \<open>max\<close> and the four arithmetic operations are the
  mathematical ones, without binary rounding. A metrics dictionary \<open>Dict[str, Any]\<close> whose
  values are numbers is an association list from keys to numbers; \<open>d.get(k, default)\<close> is
  \<open>get d k default\<close>.

  The code computes in binary floating point, where a sum can land just beside a decimal
  tie or a threshold (0.8 - 0.6 is a little more than 0.2). What the fuser and the
  explanation generator do for all inputs at such points is therefore not stated here;
  the theorems about them evaluate the definitions at concrete inputs.
\<close>

text \<open>
  Exceptions: the division by zero raised by the arithmetic of this code, and
  \<open>ExternalError\<close> for whatever an external collaborator (an analyzer, the recommender,
  the language model, the store) raises.
\<close>

datatype py_error = ZeroDivisionError | ExternalError

type_synonym metrics = "(string \<times> real) list"

definition get :: "(string \<times> 'v) list \<Rightarrow> string \<Rightarrow> 'v \<Rightarrow> 'v" where
  "get d k dflt = (case map_of d k of None \<Rightarrow> dflt | Some v \<Rightarrow> v)"

text \<open>Python's true division \<open>a / b\<close>, which raises on a zero divisor.\<close>

definition py_truediv :: "real \<Rightarrow> real \<Rightarrow> py_error + real" where
  "py_truediv a b = (if b = 0 then Inl ZeroDivisionError else Inr (a / b))"

text \<open>
  Python's \<open>round(x)\<close> rounds to the nearest integer, a tie going to the even neighbour;
  \<open>round(x, n)\<close> does the same at the \<open>n\<close>-th decimal.
\<close>

definition py_round :: "real \<Rightarrow> int" where
  "py_round x =
     (let f = \<lfloor>x\<rfloor>; d = x - of_int f
      in if d < 1 / 2 then f
         else if 1 / 2 < d then f + 1
         else if even f then f else f + 1)"

definition py_round_ndigits :: "real \<Rightarrow> nat \<Rightarrow> real" where
  "py_round_ndigits x n = of_int (py_round (x * 10 ^ n)) / 10 ^ n"

subsection \<open>Class constants of \<open>RiskCalculator\<close>\<close>

definition SPOTIFY_WEIGHT :: real where "SPOTIFY_WEIGHT = 0.4"
definition CALENDAR_WEIGHT :: real where "CALENDAR_WEIGHT = 0.5"
definition BASELINE_WEIGHT :: real where "BASELINE_WEIGHT = 0.1"

text \<open>The dictionary of categories, in its insertion order (the order \<open>items()\<close> walks).\<close>

definition RISK_CATEGORIES :: "(string \<times> real \<times> real) list" where
  "RISK_CATEGORIES =
     [(''low'', 0, 25), (''mild'', 26, 50), (''moderate'', 51, 75), (''high'', 76, 100)]"

subsection \<open>Subscore transforms\<close>

definition calculate_spotify_score :: "metrics \<Rightarrow> real" where
  "calculate_spotify_score spotify_metrics =
     (let score = 0;
          baseline_hours = get spotify_metrics ''baseline_listening_hours'' 15;
          current_hours = get spotify_metrics ''current_listening_hours'' 15;
          score =
            (if baseline_hours > 0 then
               (let listening_spike_ratio = current_hours / baseline_hours
                in if listening_spike_ratio > 2 then score + 37.5
                   else if listening_spike_ratio > 1
                        then score + (listening_spike_ratio - 1) * 37.5
                   else score)
             else score);
          late_night_pct = get spotify_metrics ''late_night_percentage'' 0;
          score = score + min 25 ((late_night_pct / 50) * 25);
          baseline_valence = get spotify_metrics ''baseline_valence'' 0.5;
          current_valence = get spotify_metrics ''current_valence'' 0.5;
          valence_decline = baseline_valence - current_valence;
          score =
            (if valence_decline > 0 then score + min 25 ((valence_decline / 0.3) * 25)
             else score);
          repeat_percentage = get spotify_metrics ''repeat_listening_percentage'' 0;
          score = score + min 12.5 ((repeat_percentage / 40) * 12.5)
      in min 100 score)"

definition calculate_calendar_score :: "metrics \<Rightarrow> real" where
  "calculate_calendar_score calendar_metrics =
     (let score = 0;
          baseline_events = get calendar_metrics ''baseline_social_events'' 8;
          current_events = get calendar_metrics ''current_social_events'' 8;
          score =
            (if baseline_events > 0 then
               (let decline_ratio = (baseline_events - current_events) / baseline_events
                in score + min 50 (decline_ratio * 66.67))
             else score);
          declined_rate = get calendar_metrics ''declined_invitation_rate'' 0;
          score = score + min 30 ((declined_rate / 50) * 30);
          baseline_unique_contacts = get calendar_metrics ''baseline_unique_contacts'' 5;
          current_unique_contacts = get calendar_metrics ''current_unique_contacts'' 5;
          score =
            (if baseline_unique_contacts > 0 then
               (let contact_decline_ratio =
                      (baseline_unique_contacts - current_unique_contacts)
                        / baseline_unique_contacts
                in score + min 20 ((contact_decline_ratio / 0.5) * 20))
             else score)
      in min 100 score)"

text \<open>
  \<open>baseline_data\<close> is \<open>None\<close> or a dictionary; \<open>not baseline_data\<close> holds for \<open>None\<close> and
  for the empty dictionary. Only its numeric entry \<open>historical_risk\<close> is read here.
\<close>

definition calculate_baseline_risk :: "metrics option \<Rightarrow> real" where
  "calculate_baseline_risk baseline_data =
     (case baseline_data of
        None \<Rightarrow> 10
      | Some d \<Rightarrow>
          if d = [] then 10
          else (let historical_risk = get d ''historical_risk'' 10
                in min 100 (max 0 historical_risk)))"

subsection \<open>Level classifier\<close>

text \<open>The \<open>for\<close> loop of \<open>get_risk_level\<close> over the categories; falling out of it returns \<open>unknown\<close>.\<close>

fun get_risk_level_loop :: "(string \<times> real \<times> real) list \<Rightarrow> real \<Rightarrow> string" where
  "get_risk_level_loop [] score = ''unknown''"
| "get_risk_level_loop ((level, min_score, max_score) # rest) score =
     (if min_score \<le> score \<and> score \<le> max_score then level
      else get_risk_level_loop rest score)"

definition get_risk_level :: "real \<Rightarrow> string" where
  "get_risk_level score = get_risk_level_loop RISK_CATEGORIES score"

subsection \<open>Explanation generator\<close>

text \<open>
  A statement of the explanation list. Each constructor stands for one f-string of
  \<open>generate_risk_explanation\<close> and carries the values the f-string formats:
  \<^item> \<open>ListeningIncreased b c\<close>: "Listening hours increased significantly (b h -> c h)";
  \<^item> \<open>LateNight p\<close>: "p% of listening happens late at night (11pm-4am)";
  \<^item> \<open>MoodShift b c\<close>: "Music mood shifted to sadder songs (positivity: b -> c)";
  \<^item> \<open>RepeatListening p\<close>: "Frequently replaying same songs (p% repeat listening)";
  \<^item> \<open>SocialDecline pct b c\<close>: "Social events declined pct% (b -> c events/month)";
  \<^item> \<open>DeclinedInvitations n\<close>: "Declined n social invitation(s) this month";
  \<^item> \<open>ReducedContact b c\<close>: "Reduced contact with friends (b -> c unique contacts)";
  \<^item> \<open>NoPatterns\<close>: "No significant isolation patterns detected".
\<close>

datatype statement =
    ListeningIncreased real real
  | LateNight real
  | MoodShift real real
  | RepeatListening real
  | SocialDecline real real real
  | DeclinedInvitations real
  | ReducedContact real real
  | NoPatterns

text \<open>
  \<open>explanations.append\<close> is modelled by rebinding the list. The only operation that can
  raise is the division by \<open>baseline_events\<close> in the social-decline statement.
\<close>

definition generate_risk_explanation ::
    "metrics \<Rightarrow> metrics \<Rightarrow> metrics \<Rightarrow> py_error + statement list" where
  "generate_risk_explanation spotify_metrics calendar_metrics factors =
     (let explanations = [];
          baseline_hours = get spotify_metrics ''baseline_listening_hours'' 15;
          current_hours = get spotify_metrics ''current_listening_hours'' 15;
          explanations =
            (if current_hours > baseline_hours * 1.5
             then explanations @ [ListeningIncreased baseline_hours current_hours]
             else explanations);
          late_night_pct = get spotify_metrics ''late_night_percentage'' 0;
          explanations =
            (if late_night_pct > 40 then explanations @ [LateNight late_night_pct]
             else explanations);
          baseline_valence = get spotify_metrics ''baseline_valence'' 0.5;
          current_valence = get spotify_metrics ''current_valence'' 0.5;
          valence_decline = baseline_valence - current_valence;
          explanations =
            (if valence_decline > 0.2
             then explanations @ [MoodShift baseline_valence current_valence]
             else explanations);
          repeat_pct = get spotify_metrics ''repeat_listening_percentage'' 0;
          explanations =
            (if repeat_pct > 30 then explanations @ [RepeatListening repeat_pct]
             else explanations);
          baseline_events = get calendar_metrics ''baseline_social_events'' 8;
          current_events = get calendar_metrics ''current_social_events'' 8
      in case (if current_events < baseline_events then
                 (case py_truediv (baseline_events - current_events) baseline_events of
                    Inl e \<Rightarrow> Inl e
                  | Inr q \<Rightarrow>
                      (let decline_pct = q * 100
                       in Inr (explanations
                                 @ [SocialDecline decline_pct baseline_events current_events])))
               else Inr explanations) of
           Inl e \<Rightarrow> Inl e
         | Inr explanations \<Rightarrow>
             (let declined_invitations = get calendar_metrics ''declined_invitations_count'' 0;
                  explanations =
                    (if declined_invitations > 0
                     then explanations @ [DeclinedInvitations declined_invitations]
                     else explanations);
                  baseline_contacts = get calendar_metrics ''baseline_unique_contacts'' 5;
                  current_contacts = get calendar_metrics ''current_unique_contacts'' 5;
                  explanations =
                    (if current_contacts < baseline_contacts * 0.7
                     then explanations @ [ReducedContact baseline_contacts current_contacts]
                     else explanations);
                  explanations =
                    (if explanations = [] then explanations @ [NoPatterns]
                     else explanations)
              in Inr explanations))"

subsection \<open>Risk fuser\<close>

text \<open>
  The dictionary \<open>calculate_risk\<close> returns, with its four keys \<open>score\<close>, \<open>level\<close>,
  \<open>factors\<close> and \<open>explanation\<close> as the fields \<open>r_score\<close>, \<open>r_level\<close>, \<open>r_factors\<close>
  and \<open>r_explanation\<close>.
\<close>

record risk_result =
  r_score :: int
  r_level :: string
  r_factors :: metrics
  r_explanation :: "statement list"

definition calculate_risk ::
    "metrics \<Rightarrow> metrics \<Rightarrow> metrics option \<Rightarrow> py_error + risk_result" where
  "calculate_risk spotify_metrics calendar_metrics baseline_data =
     (let spotify_score = calculate_spotify_score spotify_metrics;
          calendar_score = calculate_calendar_score calendar_metrics;
          baseline_score = calculate_baseline_risk baseline_data;
          total_score =
            (spotify_score * SPOTIFY_WEIGHT)
              + (calendar_score * CALENDAR_WEIGHT)
              + (baseline_score * BASELINE_WEIGHT);
          total_score = min 100 (max 0 total_score);
          risk_level = get_risk_level total_score;
          factors =
            [(''spotify_score'', py_round_ndigits spotify_score 2),
             (''calendar_score'', py_round_ndigits calendar_score 2),
             (''baseline_score'', py_round_ndigits baseline_score 2),
             (''total_score'', py_round_ndigits total_score 2)]
      in case generate_risk_explanation spotify_metrics calendar_metrics factors of
           Inl e \<Rightarrow> Inl e
         | Inr explanation \<Rightarrow>
             Inr \<lparr>r_score = py_round total_score,
                  r_level = risk_level,
                  r_factors = factors,
                  r_explanation = explanation\<rparr>)"

section \<open>Detection orchestrator: \<open>backend/agents/detection_agent.py\<close>\<close>

text \<open>
  Python truthiness of an optional string and of an optional list: \<open>None\<close> and the empty
  value are false.
\<close>

definition truthy :: "'a list option \<Rightarrow> bool" where
  "truthy x = (case x of None \<Rightarrow> False | Some v \<Rightarrow> v \<noteq> [])"

text \<open>
  The risk-assessment dictionary that travels from detection to intervention. Every key
  may be missing, so every field is optional. The entries \<open>recurring_contacts\<close> and
  \<open>days_since_social_event\<close> that \<open>run_intervention\<close> looks up inside \<open>factors\<close> hold a
  list of names and a day count, not a score; they are kept as fields of their own, and
  \<open>a_factors\<close> holds the numeric entries.
\<close>

record assessment =
  a_user_id :: "string option"
  a_score :: "int option"
  a_level :: "string option"
  a_factors :: "metrics option"
  a_explanation :: "statement list option"
  a_recurring_contacts :: "string list option"
  a_days_since_social_event :: "int option"

definition calculate_loneliness_risk_score ::
    "string \<Rightarrow> metrics \<Rightarrow> metrics \<Rightarrow> metrics option \<Rightarrow> py_error + assessment" where
  "calculate_loneliness_risk_score user_id spotify_metrics calendar_metrics baseline_data =
     (case calculate_risk spotify_metrics calendar_metrics baseline_data of
        Inl e \<Rightarrow> Inl e
      | Inr risk_result \<Rightarrow>
          Inr \<lparr>a_user_id = Some user_id,
               a_score = Some (r_score risk_result),
               a_level = Some (r_level risk_result),
               a_factors = Some (r_factors risk_result),
               a_explanation = Some (r_explanation risk_result),
               a_recurring_contacts = None,
               a_days_since_social_event = None\<rparr>)"

definition default_spotify_metrics :: metrics where
  "default_spotify_metrics =
     [(''baseline_listening_hours'', 90),
      (''current_listening_hours'', 90),
      (''late_night_percentage'', 0),
      (''baseline_valence'', 0.5),
      (''current_valence'', 0.5),
      (''repeat_listening_percentage'', 0)]"

definition default_calendar_metrics :: metrics where
  "default_calendar_metrics =
     [(''baseline_social_events'', 8),
      (''current_social_events'', 8),
      (''declined_invitation_rate'', 0),
      (''declined_invitations_count'', 0),
      (''baseline_unique_contacts'', 5),
      (''current_unique_contacts'', 5)]"

text \<open>
  The two external analyzers. Each stands for the body of one \<open>try\<close> block of
  \<open>run_detection\<close>: the calls to \<open>SpotifyTool\<close> or \<open>CalendarTool\<close> with the token and the
  assembly of the metrics dictionary from their answers; \<open>Inl\<close> is any exception raised
  inside the block.
\<close>

record analyzers =
  spotify_analyzer :: "string \<Rightarrow> metrics option \<Rightarrow> py_error + metrics"
  calendar_analyzer :: "string \<Rightarrow> metrics option \<Rightarrow> py_error + metrics"

record detection_result =
  d_risk_assessment :: assessment
  d_spotify_metrics :: metrics
  d_calendar_metrics :: metrics

definition run_detection ::
    "analyzers \<Rightarrow> string \<Rightarrow> string option \<Rightarrow> string option \<Rightarrow> metrics option
       \<Rightarrow> py_error + detection_result" where
  "run_detection tools user_id calendar_token spotify_token baseline_data =
     (let spotify_metrics =
            (if truthy spotify_token then
               (case spotify_analyzer tools (the spotify_token) baseline_data of
                  Inr m \<Rightarrow> m
                | Inl e \<Rightarrow> default_spotify_metrics)
             else default_spotify_metrics);
          calendar_metrics =
            (if truthy calendar_token then
               (case calendar_analyzer tools (the calendar_token) baseline_data of
                  Inr m \<Rightarrow> m
                | Inl e \<Rightarrow> default_calendar_metrics)
             else default_calendar_metrics)
      in case calculate_loneliness_risk_score user_id spotify_metrics calendar_metrics
                baseline_data of
           Inl e \<Rightarrow> Inl e
         | Inr risk_assessment \<Rightarrow>
             Inr \<lparr>d_risk_assessment = risk_assessment,
                  d_spotify_metrics = spotify_metrics,
                  d_calendar_metrics = calendar_metrics\<rparr>)"

section \<open>Intervention orchestrator: \<open>backend/agents/intervention_agent.py\<close>\<close>

subsection \<open>Strings\<close>

text \<open>
  \<open>str.strip()\<close> removes leading and trailing whitespace; among the ASCII characters
  these are the space, the controls 9 to 13 and 28 to 31. \<open>sep.join(xs)\<close> and the
  substring test \<open>sub in s\<close> are the remaining string operations used.
\<close>

definition is_space :: "char \<Rightarrow> bool" where
  "is_space c =
     (c \<in> set [CHR '' '', CHR 0x09, CHR ''\<newline>'', CHR 0x0B, CHR 0x0C, CHR 0x0D,
                CHR 0x1C, CHR 0x1D, CHR 0x1E, CHR 0x1F])"

definition strip :: "string \<Rightarrow> string" where
  "strip s = rev (dropWhile is_space (rev (dropWhile is_space s)))"

fun join :: "string \<Rightarrow> string list \<Rightarrow> string" where
  "join sep [] = []"
| "join sep [x] = x"
| "join sep (x # y # ys) = x @ sep @ join sep (y # ys)"

fun contains :: "string \<Rightarrow> string \<Rightarrow> bool" where
  "contains sub [] = (sub = [])"
| "contains sub (c # cs) = (take (length sub) (c # cs) = sub \<or> contains sub cs)"

subsection \<open>Template messages\<close>

definition messages :: "(string \<times> string) list" where
  "messages =
     [(''low'',
       ''\<newline>''
       @ ''        Hey! I've been keeping an eye on your patterns, and things look pretty steady.\<newline>''
       @ ''        You're doing a great job maintaining your social connections. Keep it up!\<newline>''
       @ ''        ''),
      (''moderate'',
       ''\<newline>''
       @ ''        I noticed you've been spending a bit more time solo lately - totally normal,\<newline>''
       @ ''        especially if you're in the middle of exams or busy season. Just wanted to\<newline>''
       @ ''        check in. How are you feeling about your social energy lately?\<newline>''
       @ ''        ''),
      (''elevated'',
       ''\<newline>''
       @ ''        I've noticed some patterns that caught my attention. You used to hang out\<newline>''
       @ ''        with people more often, and your recent listening history suggests you might\<newline>''
       @ ''        be feeling a bit down. Not judging at all - we all go through phases. But I\<newline>''
       @ ''        wanted to check in because I care about you. Would you be open to reconnecting\<newline>''
       @ ''        with someone or trying a low-key social activity?\<newline>''
       @ ''        ''),
      (''high'',
       ''\<newline>''
       @ ''        Hey, I want to be real with you. I've noticed some concerning patterns -\<newline>''
       @ ''        you've been isolating more than usual, and your mood seems to have shifted.\<newline>''
       @ ''        I'm not here to diagnose anything, but as someone who cares about you, I think\<newline>''
       @ ''        it might be time to reach out to someone. Whether that's a friend, a counselor,\<newline>''
       @ ''        or just getting out of the house for a bit. You don't have to go through this alone.\<newline>''
       @ ''        ''),
      (''critical'',
       ''\<newline>''
       @ ''        I'm genuinely worried about you. The patterns I'm seeing suggest you might be\<newline>''
       @ ''        struggling with serious isolation and possibly depression. Please, please reach\<newline>''
       @ ''        out to someone you trust or a mental health professional. This is not something\<newline>''
       @ ''        you should handle alone. There are people who care about you and want to help.\<newline>''
       @ ''\<newline>''
       @ ''        Crisis Resources:\<newline>''
       @ ''        - National Suicide Prevention Lifeline: 988\<newline>''
       @ ''        - Crisis Text Line: Text HOME to 741741\<newline>''
       @ ''        - TAMU Counseling & Psychological Services: (979) 845-4427\<newline>''
       @ ''        '')]"

definition generate_empathetic_message :: "string \<Rightarrow> int \<Rightarrow> string" where
  "generate_empathetic_message risk_level risk_score =
     strip (get messages risk_level (get messages ''moderate'' []))"

subsection \<open>External collaborators\<close>

text \<open>
  An event record is a dictionary of strings. A prompt is kept symbolic: the template and
  the values that fill it. \<open>CrisisPrompt\<close> is \<open>CRISIS_ESCALATION_PROMPT\<close> filled with the
  score, the factor items and the user's message; \<open>InterventionPrompt\<close> is
  \<open>INTERVENTION_PROMPT\<close> filled with the score, the factor items, the user's message, the
  friend string and the day count (\<open>None\<close> printing as "Unknown"); \<open>AdditionalContext\<close>
  is a prompt followed by the three lines on interests, location and the number of
  activities found.
\<close>

type_synonym activity = "(string \<times> string) list"

datatype prompt =
    CrisisPrompt int "(string \<times> real) list" string
  | InterventionPrompt int "(string \<times> real) list" string string "int option"
  | AdditionalContext prompt string "string option" nat

text \<open>
  The collaborators \<open>run_intervention\<close> calls: the event recommender
  (\<open>EventMatchingTool.recommend_events\<close> with location, anxiety level, interests and
  limit), the language model (\<open>generate_content\<close> with the prompt) and the store
  (\<open>store_intervention\<close> with user id, score, suggestion, event id and event source,
  answering the identifier of the stored row). \<open>Inl\<close> is an exception raised by the call.
\<close>

record collaborators =
  recommend_events :: "string \<Rightarrow> string \<Rightarrow> string list \<Rightarrow> nat \<Rightarrow> py_error + activity list"
  generate_content :: "prompt \<Rightarrow> py_error + string"
  store_intervention ::
    "string \<Rightarrow> int \<Rightarrow> string \<Rightarrow> string option \<Rightarrow> string option \<Rightarrow> py_error + string"

type_synonym recommend_call = "string \<times> string \<times> string list \<times> nat"

subsection \<open>Prompt helpers: \<open>backend/core/prompts.py\<close>\<close>

definition format_intervention_prompt ::
    "int \<Rightarrow> (string \<times> real) list \<Rightarrow> string \<Rightarrow> string list \<Rightarrow> int option \<Rightarrow> prompt" where
  "format_intervention_prompt risk_score risk_explanation user_message friend_list
       days_since_social_event =
     (let friend_str =
            (if friend_list \<noteq> [] then join '', '' friend_list
             else ''No recurring contacts identified'')
      in InterventionPrompt risk_score risk_explanation user_message friend_str
           days_since_social_event)"

definition format_crisis_prompt :: "int \<Rightarrow> (string \<times> real) list \<Rightarrow> string \<Rightarrow> prompt" where
  "format_crisis_prompt risk_score risk_factors user_message =
     CrisisPrompt risk_score risk_factors
       (if user_message \<noteq> [] then user_message else ''No recent message'')"

subsection \<open>Activities and action items\<close>

definition anxiety_mapping :: "(string \<times> string) list" where
  "anxiety_mapping =
     [(''low'', ''low''),
      (''moderate'', ''low''),
      (''elevated'', ''medium''),
      (''high'', ''high''),
      (''critical'', ''high'')]"

text \<open>
  \<open>recommend_activities\<close> returns the activities together with the list of calls it made
  to the recommender, so that a property can speak about whether the recommender was
  invoked.
\<close>

definition recommend_activities ::
    "collaborators \<Rightarrow> string \<Rightarrow> string list option \<Rightarrow> string option
       \<Rightarrow> activity list \<times> recommend_call list" where
  "recommend_activities ext risk_level interests location =
     (if \<not> truthy interests \<or> \<not> truthy location then ([], [])
      else
        (let anxiety_level = get anxiety_mapping risk_level ''medium'';
             call = (the location, anxiety_level, the interests, 5)
         in case recommend_events ext (the location) anxiety_level (the interests) 5 of
              Inr recommendations \<Rightarrow> (recommendations, [call])
            | Inl e \<Rightarrow> ([], [call])))"

text \<open>The \<open>if\<close>/\<open>elif\<close> chain that both orchestrating functions use for the action items.\<close>

definition action_items_for :: "string \<Rightarrow> string list" where
  "action_items_for risk_level =
     (if risk_level \<in> set [''low'', ''moderate''] then
        [''Continue maintaining your current social connections'',
         ''Consider trying one new social activity this week'']
      else if risk_level = ''elevated'' then
        [''Reach out to a friend you haven't talked to in a while'',
         ''Join one small group activity (see recommendations below)'',
         ''Spend 10 minutes outside in a social space (coffee shop, park)'']
      else if risk_level = ''high'' then
        [''Text or call one person you trust today'',
         ''Schedule a low-pressure social activity within 3 days'',
         ''Consider talking to a counselor or therapist'',
         ''Join a structured group activity (less awkward than 'just hanging out')'']
      else if risk_level = ''critical'' then
        [''Call or text someone you trust RIGHT NOW'',
         ''Contact TAMU Counseling Services: (979) 845-4427'',
         ''Call National Suicide Prevention Lifeline: 988'',
         ''Go to a public place (don't stay isolated)'']
      else [])"

record intervention =
  i_risk_level :: string
  i_risk_score :: int
  i_message :: string
  i_activities :: "activity list"
  i_action_items :: "string list"
  i_intervention_id :: "string option"

text \<open>What a run did besides returning: the recommender calls and the prompt it built.\<close>

record effects =
  recommend_calls :: "recommend_call list"
  user_context :: "prompt option"

definition generate_intervention_strategy ::
    "collaborators \<Rightarrow> assessment \<Rightarrow> string list option \<Rightarrow> string option
       \<Rightarrow> intervention \<times> effects" where
  "generate_intervention_strategy ext risk_assessment user_interests user_location =
     (let risk_level = (case a_level risk_assessment of None \<Rightarrow> ''moderate'' | Some l \<Rightarrow> l);
          risk_score = (case a_score risk_assessment of None \<Rightarrow> 50 | Some s \<Rightarrow> s);
          message = generate_empathetic_message risk_level risk_score;
          (activities, calls) =
            (if risk_level \<noteq> ''critical''
             then recommend_activities ext risk_level user_interests user_location
             else ([], []));
          action_items = action_items_for risk_level
      in (\<lparr>i_risk_level = risk_level,
            i_risk_score = risk_score,
            i_message = message,
            i_activities = activities,
            i_action_items = action_items,
            i_intervention_id = None\<rparr>,
          \<lparr>recommend_calls = calls, user_context = None\<rparr>))"

text \<open>
  \<open>db_session\<close> is an arbitrary object or \<open>None\<close>; only its truth value is used, so it is a
  boolean here.
\<close>

definition run_intervention ::
    "collaborators \<Rightarrow> assessment \<Rightarrow> string option \<Rightarrow> string list option \<Rightarrow> string option
       \<Rightarrow> string option \<Rightarrow> bool \<Rightarrow> intervention \<times> effects" where
  "run_intervention ext risk_assessment user_id user_interests user_location user_message
       db_session =
     (let risk_level = (case a_level risk_assessment of None \<Rightarrow> ''moderate'' | Some l \<Rightarrow> l);
          risk_score = (case a_score risk_assessment of None \<Rightarrow> 50 | Some s \<Rightarrow> s);
          factors = (case a_factors risk_assessment of None \<Rightarrow> [] | Some f \<Rightarrow> f);
          (activities, calls) =
            (if risk_level \<noteq> ''critical''
             then recommend_activities ext risk_level user_interests user_location
             else ([], []));
          action_items = action_items_for risk_level;
          friend_list =
            (case a_recurring_contacts risk_assessment of None \<Rightarrow> [] | Some c \<Rightarrow> c);
          days_since_social = a_days_since_social_event risk_assessment;
          risk_explanation = factors;
          message_or_default =
            (if truthy user_message then the user_message else ''User is checking in'');
          context =
            (if risk_score \<ge> 76 then
               (let risk_factors_list = factors
                in format_crisis_prompt risk_score risk_factors_list message_or_default)
             else
               AdditionalContext
                 (format_intervention_prompt risk_score risk_explanation message_or_default
                    friend_list days_since_social)
                 (if truthy user_interests then join '', '' (the user_interests)
                  else ''Not specified'')
                 user_location
                 (length activities));
          llm_message =
            (case generate_content ext context of
               Inr text \<Rightarrow> text
             | Inl e \<Rightarrow> generate_empathetic_message risk_level risk_score);
          intervention_id =
            (if db_session \<and> truthy user_id then
               (let event_id = (if activities \<noteq> [] then map_of (hd activities) ''id'' else None);
                    event_source =
                      (if activities \<noteq> [] then map_of (hd activities) ''source'' else None)
                in case store_intervention ext (the user_id) risk_score llm_message event_id
                          event_source of
                     Inr stored \<Rightarrow> Some stored
                   | Inl e \<Rightarrow> None)
             else None)
      in (\<lparr>i_risk_level = risk_level,
            i_risk_score = risk_score,
            i_message = llm_message,
            i_activities = activities,
            i_action_items = action_items,
            i_intervention_id = intervention_id\<rparr>,
          \<lparr>recommend_calls = calls, user_context = Some context\<rparr>))"

section \<open>Properties of the level classifier\<close>

lemma get_risk_level_cases:
  "get_risk_level s =
     (if 0 \<le> s \<and> s \<le> 25 then ''low''
      else if 26 \<le> s \<and> s \<le> 50 then ''mild''
      else if 51 \<le> s \<and> s \<le> 75 then ''moderate''
      else if 76 \<le> s \<and> s \<le> 100 then ''high''
      else ''unknown'')"
  by (simp add: get_risk_level_def RISK_CATEGORIES_def)

lemma get_risk_level_boundaries:
  "get_risk_level 0 = ''low''" "get_risk_level 25 = ''low''"
  "get_risk_level 26 = ''mild''" "get_risk_level 50 = ''mild''"
  "get_risk_level 51 = ''moderate''" "get_risk_level 75 = ''moderate''"
  "get_risk_level 76 = ''high''" "get_risk_level 100 = ''high''"
  by (simp_all add: get_risk_level_cases)

text \<open>
  Claim C1. The classifier is meant to send every score in [0,100], also a non-integer
  composite, to one of low, mild, moderate, high. At the score 25.5, which lies in
  [0,100], the loop finds no category and the classifier answers \<open>unknown\<close>, which is
  none of the four levels. The fuser hands it such scores: neutral metrics except a
  late-night share of 7, a declined rate of 50 and contacts dropping from 5 to 3 give the
  composite 25.4, reported as score 25 with the level \<open>unknown\<close>.
\<close>

theorem get_risk_level_gap:
  "(0::real) \<le> 25.5 \<and> (25.5::real) \<le> 100
     \<and> get_risk_level 25.5 = ''unknown''
     \<and> get_risk_level 25.5 \<notin> set [''low'', ''mild'', ''moderate'', ''high'']
     \<and> calculate_risk
           [(''baseline_listening_hours'', 90), (''current_listening_hours'', 90),
            (''late_night_percentage'', 7), (''baseline_valence'', 0.5),
            (''current_valence'', 0.5), (''repeat_listening_percentage'', 0)]
           [(''baseline_social_events'', 8), (''current_social_events'', 8),
            (''declined_invitation_rate'', 50), (''declined_invitations_count'', 0),
            (''baseline_unique_contacts'', 5), (''current_unique_contacts'', 3)]
           None
         = Inr \<lparr>r_score = 25, r_level = ''unknown'',
                r_factors = [(''spotify_score'', 3.5), (''calendar_score'', 46),
                             (''baseline_score'', 10), (''total_score'', 25.4)],
                r_explanation = [ReducedContact 5 3]\<rparr>"
  by (simp add: get_risk_level_cases calculate_risk_def calculate_spotify_score_def
        calculate_calendar_score_def calculate_baseline_risk_def SPOTIFY_WEIGHT_def
        CALENDAR_WEIGHT_def BASELINE_WEIGHT_def py_round_def py_round_ndigits_def
        generate_risk_explanation_def py_truediv_def get_def)

section \<open>Properties of the subscores and of the fuser\<close>

lemma calculate_spotify_score_le: "calculate_spotify_score m \<le> 100"
  unfolding calculate_spotify_score_def Let_def by (rule min.cobounded1)

lemma calculate_calendar_score_le: "calculate_calendar_score m \<le> 100"
  unfolding calculate_calendar_score_def Let_def by (rule min.cobounded1)

text \<open>
  Claim C2. Both subscores are meant to lie in [0,100] for every input, each partial term
  being floored at 0. The code caps each term and the sum from above only: a late-night
  percentage of -100 gives the listening subscore -50 (0 with the valid value 0), and a
  calendar with more current events than the baseline (16 against 8) gives the calendar
  subscore -66.67.
\<close>

theorem subscores_below_zero:
  "calculate_spotify_score
       [(''baseline_listening_hours'', 90), (''current_listening_hours'', 90),
        (''late_night_percentage'', -100), (''baseline_valence'', 0.5),
        (''current_valence'', 0.5), (''repeat_listening_percentage'', 0)] = -50
   \<and> calculate_spotify_score
       [(''baseline_listening_hours'', 90), (''current_listening_hours'', 90),
        (''late_night_percentage'', 0), (''baseline_valence'', 0.5),
        (''current_valence'', 0.5), (''repeat_listening_percentage'', 0)] = 0
   \<and> calculate_calendar_score
       [(''baseline_social_events'', 8), (''current_social_events'', 16),
        (''declined_invitation_rate'', 0), (''declined_invitations_count'', 0),
        (''baseline_unique_contacts'', 5), (''current_unique_contacts'', 5)] = -66.67"
  by (simp add: calculate_spotify_score_def calculate_calendar_score_def get_def)

text \<open>
  Claim C3. \<open>calculate_risk\<close> is meant never to raise. With a baseline of 0 social events
  and -1 current events the explanation generator divides by the baseline and the whole
  call ends in \<open>ZeroDivisionError\<close>.
\<close>

theorem calculate_risk_raises:
  "calculate_risk
       [(''baseline_listening_hours'', 90), (''current_listening_hours'', 90),
        (''late_night_percentage'', 0), (''baseline_valence'', 0.5),
        (''current_valence'', 0.5), (''repeat_listening_percentage'', 0)]
       [(''baseline_social_events'', 0), (''current_social_events'', -1),
        (''declined_invitation_rate'', 0), (''declined_invitations_count'', 0),
        (''baseline_unique_contacts'', 5), (''current_unique_contacts'', 5)]
       None
     = Inl ZeroDivisionError"
  by (simp add: calculate_risk_def Let_def generate_risk_explanation_def py_truediv_def
        get_def)

section \<open>Properties of the detection orchestrator\<close>

lemma default_metrics_scores:
  "calculate_spotify_score default_spotify_metrics = 0"
  "calculate_calendar_score default_calendar_metrics = 0"
  by (simp_all add: calculate_spotify_score_def calculate_calendar_score_def
        default_spotify_metrics_def default_calendar_metrics_def get_def)

lemma default_metrics_explanation:
  "generate_risk_explanation default_spotify_metrics default_calendar_metrics f
     = Inr [NoPatterns]"
  by (simp add: generate_risk_explanation_def default_spotify_metrics_def
        default_calendar_metrics_def get_def)

lemma default_metrics_risk:
  "calculate_risk default_spotify_metrics default_calendar_metrics None
     = Inr \<lparr>r_score = 1, r_level = ''low'',
            r_factors = [(''spotify_score'', 0), (''calendar_score'', 0),
                         (''baseline_score'', 10), (''total_score'', 1)],
            r_explanation = [NoPatterns]\<rparr>"
  by (simp add: calculate_risk_def default_metrics_scores default_metrics_explanation
        calculate_baseline_risk_def SPOTIFY_WEIGHT_def CALENDAR_WEIGHT_def BASELINE_WEIGHT_def
        get_risk_level_cases py_round_def py_round_ndigits_def)

text \<open>
  Claim C9. With no calendar token, no listening token and no baseline, both sources get
  their neutral default metrics, both subscores are 0, and only the baseline prior
  contributes: the composite is \<open>10 * 0.1 = 1\<close>, so the score is 1 (above 0, at most 10) and
  the level is low.
\<close>

theorem run_detection_neutral_defaults:
  "\<exists>d s. run_detection tools user_id None None None = Inr d
     \<and> d_spotify_metrics d = default_spotify_metrics
     \<and> d_calendar_metrics d = default_calendar_metrics
     \<and> a_score (d_risk_assessment d) = Some s \<and> 0 < s \<and> s \<le> 10 \<and> s = 1
     \<and> a_level (d_risk_assessment d) = Some ''low''
     \<and> a_factors (d_risk_assessment d)
         = Some [(''spotify_score'', 0), (''calendar_score'', 0),
                 (''baseline_score'', 10), (''total_score'', 1)]
     \<and> calculate_baseline_risk None * BASELINE_WEIGHT = 1"
  by (simp add: run_detection_def truthy_def calculate_loneliness_risk_score_def
        default_metrics_risk calculate_baseline_risk_def BASELINE_WEIGHT_def)


section \<open>Properties of the intervention orchestrator\<close>

lemma messages_keys:
  "map fst messages = [''low'', ''moderate'', ''elevated'', ''high'', ''critical'']"
  by (simp add: messages_def)

lemma generate_empathetic_message_fallback:
  assumes "risk_level \<notin> set [''low'', ''moderate'', ''elevated'', ''high'', ''critical'']"
  shows "generate_empathetic_message risk_level s = generate_empathetic_message ''moderate'' s'"
proof -
  from assms have "risk_level \<notin> fst ` set messages"
    using messages_keys by (metis list.set_map)
  then have "map_of messages risk_level = None"
    by (simp add: map_of_eq_None_iff)
  then show ?thesis
    by (simp add: generate_empathetic_message_def get_def split: option.splits)
qed

lemma action_items_for_other:
  assumes "risk_level \<notin> set [''low'', ''moderate'', ''elevated'', ''high'', ''critical'']"
  shows "action_items_for risk_level = []"
  using assms by (simp add: action_items_for_def)

lemma message_high:
  "generate_empathetic_message ''high'' s =
     ''Hey, I want to be real with you. I've noticed some concerning patterns -\<newline>''
     @ ''        you've been isolating more than usual, and your mood seems to have shifted.\<newline>''
     @ ''        I'm not here to diagnose anything, but as someone who cares about you, I think\<newline>''
     @ ''        it might be time to reach out to someone. Whether that's a friend, a counselor,\<newline>''
     @ ''        or just getting out of the house for a bit. You don't have to go through this alone.''"
  by (simp add: generate_empathetic_message_def get_def messages_def strip_def is_space_def)

lemma message_high_no_988: "\<not> contains ''988'' (generate_empathetic_message ''high'' s)"
  unfolding message_high by simp

lemma message_moderate:
  "generate_empathetic_message ''moderate'' s =
     ''I noticed you've been spending a bit more time solo lately - totally normal,\<newline>''
     @ ''        especially if you're in the middle of exams or busy season. Just wanted to\<newline>''
     @ ''        check in. How are you feeling about your social energy lately?''"
  by (simp add: generate_empathetic_message_def get_def messages_def strip_def is_space_def)

lemma recommend_activities_calls:
  "snd (recommend_activities ext lvl ints loc) =
     (if truthy ints \<and> truthy loc
      then [(the loc, get anxiety_mapping lvl ''medium'', the ints, 5)] else [])"
  by (simp add: recommend_activities_def Let_def split: sum.splits)

lemma recommend_activities_result:
  "fst (recommend_activities ext lvl ints loc) =
     (if truthy ints \<and> truthy loc then
        (case recommend_events ext (the loc) (get anxiety_mapping lvl ''medium'') (the ints) 5 of
           Inr recommendations \<Rightarrow> recommendations
         | Inl e \<Rightarrow> [])
      else [])"
  by (simp add: recommend_activities_def Let_def split: sum.splits)

lemma run_intervention_activities:
  "i_activities (fst (run_intervention ext a uid ints loc msg db)) =
     (if (case a_level a of None \<Rightarrow> ''moderate'' | Some l \<Rightarrow> l) \<noteq> ''critical''
      then fst (recommend_activities ext (case a_level a of None \<Rightarrow> ''moderate'' | Some l \<Rightarrow> l)
                  ints loc)
      else [])"
  by (simp add: run_intervention_def Let_def case_prod_beta)

lemma run_intervention_calls:
  "recommend_calls (snd (run_intervention ext a uid ints loc msg db)) =
     (if (case a_level a of None \<Rightarrow> ''moderate'' | Some l \<Rightarrow> l) \<noteq> ''critical''
      then snd (recommend_activities ext (case a_level a of None \<Rightarrow> ''moderate'' | Some l \<Rightarrow> l)
                  ints loc)
      else [])"
  by (simp add: run_intervention_def Let_def case_prod_beta)

lemma run_intervention_action_items:
  "i_action_items (fst (run_intervention ext a uid ints loc msg db)) =
     action_items_for (case a_level a of None \<Rightarrow> ''moderate'' | Some l \<Rightarrow> l)"
  by (simp add: run_intervention_def Let_def case_prod_beta)

lemma run_intervention_context:
  "user_context (snd (run_intervention ext a uid ints loc msg db)) =
     Some
       (if 76 \<le> (case a_score a of None \<Rightarrow> 50 | Some s \<Rightarrow> s) then
          format_crisis_prompt (case a_score a of None \<Rightarrow> 50 | Some s \<Rightarrow> s)
            (case a_factors a of None \<Rightarrow> [] | Some f \<Rightarrow> f)
            (if truthy msg then the msg else ''User is checking in'')
        else
          AdditionalContext
            (format_intervention_prompt (case a_score a of None \<Rightarrow> 50 | Some s \<Rightarrow> s)
               (case a_factors a of None \<Rightarrow> [] | Some f \<Rightarrow> f)
               (if truthy msg then the msg else ''User is checking in'')
               (case a_recurring_contacts a of None \<Rightarrow> [] | Some c \<Rightarrow> c)
               (a_days_since_social_event a))
            (if truthy ints then join '', '' (the ints) else ''Not specified'')
            loc
            (length (i_activities (fst (run_intervention ext a uid ints loc msg db)))))"
  by (simp add: run_intervention_def Let_def case_prod_beta)

lemma run_intervention_message:
  "i_message (fst (run_intervention ext a uid ints loc msg db)) =
     (case generate_content ext (the (user_context (snd (run_intervention ext a uid ints loc msg db)))) of
        Inr text \<Rightarrow> text
      | Inl e \<Rightarrow>
          generate_empathetic_message (case a_level a of None \<Rightarrow> ''moderate'' | Some l \<Rightarrow> l)
            (case a_score a of None \<Rightarrow> 50 | Some s \<Rightarrow> s))"
  by (simp add: run_intervention_def Let_def case_prod_beta)

text \<open>
  Claim C7. \<open>run_intervention\<close> calls the activity recommender exactly when the level is
  not critical and both interests and location are present (not \<open>None\<close> and not empty),
  and then once, with the location, the anxiety level of the risk level, the interests and
  the limit 5; what the recommender answers is the activity list of the payload. When the
  level is critical, when interests or location is absent, or when the recommender raises,
  the activity list is empty; the action items and the message are produced all the same:
  the action items of the level, and the model's text or, when the model fails, the
  template message.
\<close>

theorem run_intervention_recommender_gate:
  "(recommend_calls (snd (run_intervention ext a uid ints loc msg db)) \<noteq> []
      \<longleftrightarrow> (case a_level a of None \<Rightarrow> ''moderate'' | Some l \<Rightarrow> l) \<noteq> ''critical''
           \<and> truthy ints \<and> truthy loc)
   \<and> (length (recommend_calls (snd (run_intervention ext a uid ints loc msg db))) \<le> 1)
   \<and> ((case a_level a of None \<Rightarrow> ''moderate'' | Some l \<Rightarrow> l) \<noteq> ''critical''
           \<and> truthy ints \<and> truthy loc
        \<longrightarrow> recommend_calls (snd (run_intervention ext a uid ints loc msg db))
              = [(the loc, (get anxiety_mapping (case a_level a of None \<Rightarrow> ''moderate'' | Some l \<Rightarrow> l)
                  ''medium''),
                  the ints, 5)])
   \<and> (\<forall>recommendations.
        (case a_level a of None \<Rightarrow> ''moderate'' | Some l \<Rightarrow> l) \<noteq> ''critical''
           \<and> truthy ints \<and> truthy loc
           \<and> recommend_events ext (the loc)
               (get anxiety_mapping (case a_level a of None \<Rightarrow> ''moderate'' | Some l \<Rightarrow> l)
                  ''medium'')
               (the ints) 5 = Inr recommendations
        \<longrightarrow> i_activities (fst (run_intervention ext a uid ints loc msg db)) = recommendations)
   \<and> ((case a_level a of None \<Rightarrow> ''moderate'' | Some l \<Rightarrow> l) = ''critical''
        \<longrightarrow> i_activities (fst (run_intervention ext a uid ints loc msg db)) = [])
   \<and> (\<not> truthy ints \<or> \<not> truthy loc
        \<longrightarrow> i_activities (fst (run_intervention ext a uid ints loc msg db)) = [])
   \<and> ((\<exists>e. recommend_events ext (the loc)
               (get anxiety_mapping (case a_level a of None \<Rightarrow> ''moderate'' | Some l \<Rightarrow> l)
                  ''medium'')
               (the ints) 5 = Inl e)
        \<longrightarrow> i_activities (fst (run_intervention ext a uid ints loc msg db)) = [])
   \<and> (i_action_items (fst (run_intervention ext a uid ints loc msg db))
       = action_items_for (case a_level a of None \<Rightarrow> ''moderate'' | Some l \<Rightarrow> l))
   \<and> (i_message (fst (run_intervention ext a uid ints loc msg db))
       = (case generate_content ext
                 (the (user_context (snd (run_intervention ext a uid ints loc msg db)))) of
            Inr text \<Rightarrow> text
          | Inl e \<Rightarrow>
              generate_empathetic_message
                (case a_level a of None \<Rightarrow> ''moderate'' | Some l \<Rightarrow> l)
                (case a_score a of None \<Rightarrow> 50 | Some s \<Rightarrow> s)))"
proof (intro conjI)
  show "recommend_calls (snd (run_intervention ext a uid ints loc msg db)) \<noteq> []
      \<longleftrightarrow> (case a_level a of None \<Rightarrow> ''moderate'' | Some l \<Rightarrow> l) \<noteq> ''critical''
           \<and> truthy ints \<and> truthy loc"
    by (simp add: run_intervention_calls recommend_activities_calls)
  show "length (recommend_calls (snd (run_intervention ext a uid ints loc msg db))) \<le> 1"
    by (simp add: run_intervention_calls recommend_activities_calls)
  show "(case a_level a of None \<Rightarrow> ''moderate'' | Some l \<Rightarrow> l) \<noteq> ''critical''
           \<and> truthy ints \<and> truthy loc
        \<longrightarrow> recommend_calls (snd (run_intervention ext a uid ints loc msg db))
              = [(the loc, (get anxiety_mapping (case a_level a of None \<Rightarrow> ''moderate'' | Some l \<Rightarrow> l)
                  ''medium''),
                  the ints, 5)]"
    by (simp add: run_intervention_calls recommend_activities_calls)
  show "\<forall>recommendations.
        (case a_level a of None \<Rightarrow> ''moderate'' | Some l \<Rightarrow> l) \<noteq> ''critical''
           \<and> truthy ints \<and> truthy loc
           \<and> recommend_events ext (the loc)
               (get anxiety_mapping (case a_level a of None \<Rightarrow> ''moderate'' | Some l \<Rightarrow> l)
                  ''medium'')
               (the ints) 5 = Inr recommendations
        \<longrightarrow> i_activities (fst (run_intervention ext a uid ints loc msg db)) = recommendations"
    by (simp add: run_intervention_activities recommend_activities_result)
  show "(case a_level a of None \<Rightarrow> ''moderate'' | Some l \<Rightarrow> l) = ''critical''
        \<longrightarrow> i_activities (fst (run_intervention ext a uid ints loc msg db)) = []"
    by (simp add: run_intervention_activities)
  show "\<not> truthy ints \<or> \<not> truthy loc
        \<longrightarrow> i_activities (fst (run_intervention ext a uid ints loc msg db)) = []"
    by (auto simp add: run_intervention_activities recommend_activities_result)
  show "(\<exists>e. recommend_events ext (the loc)
               (get anxiety_mapping (case a_level a of None \<Rightarrow> ''moderate'' | Some l \<Rightarrow> l)
                  ''medium'')
               (the ints) 5 = Inl e)
        \<longrightarrow> i_activities (fst (run_intervention ext a uid ints loc msg db)) = []"
    by (auto simp add: run_intervention_activities recommend_activities_result)
  show "i_action_items (fst (run_intervention ext a uid ints loc msg db))
       = action_items_for (case a_level a of None \<Rightarrow> ''moderate'' | Some l \<Rightarrow> l)"
    by (rule run_intervention_action_items)
  show "i_message (fst (run_intervention ext a uid ints loc msg db))
       = (case generate_content ext
                 (the (user_context (snd (run_intervention ext a uid ints loc msg db)))) of
            Inr text \<Rightarrow> text
          | Inl e \<Rightarrow>
              generate_empathetic_message
                (case a_level a of None \<Rightarrow> ''moderate'' | Some l \<Rightarrow> l)
                (case a_score a of None \<Rightarrow> 50 | Some s \<Rightarrow> s))"
    by (rule run_intervention_message)
qed

text \<open>
  Claim C8. \<open>run_intervention\<close> builds the crisis prompt exactly when the numeric score is
  at least 76, and the standard intervention prompt (with its additional context) when the
  score is below 76; replacing the level label by any other leaves the choice unchanged.
\<close>

theorem run_intervention_crisis_path:
  "((\<exists>s f m. user_context (snd (run_intervention ext a uid ints loc msg db))
              = Some (CrisisPrompt s f m))
      \<longleftrightarrow> 76 \<le> (case a_score a of None \<Rightarrow> 50 | Some s \<Rightarrow> s))
   \<and> (76 \<le> (case a_score a of None \<Rightarrow> 50 | Some s \<Rightarrow> s) \<longrightarrow>
        user_context (snd (run_intervention ext a uid ints loc msg db))
          = Some (format_crisis_prompt (case a_score a of None \<Rightarrow> 50 | Some s \<Rightarrow> s)
                    (case a_factors a of None \<Rightarrow> [] | Some f \<Rightarrow> f)
                    (if truthy msg then the msg else ''User is checking in'')))
   \<and> ((case a_score a of None \<Rightarrow> 50 | Some s \<Rightarrow> s) < 76 \<longrightarrow>
        user_context (snd (run_intervention ext a uid ints loc msg db))
          = Some (AdditionalContext
                    (format_intervention_prompt (case a_score a of None \<Rightarrow> 50 | Some s \<Rightarrow> s)
                       (case a_factors a of None \<Rightarrow> [] | Some f \<Rightarrow> f)
                       (if truthy msg then the msg else ''User is checking in'')
                       (case a_recurring_contacts a of None \<Rightarrow> [] | Some c \<Rightarrow> c)
                       (a_days_since_social_event a))
                    (if truthy ints then join '', '' (the ints) else ''Not specified'')
                    loc
                    (length (i_activities (fst (run_intervention ext a uid ints loc msg db))))))
   \<and> ((\<exists>s f m. user_context (snd (run_intervention ext (a\<lparr>a_level := l\<rparr>) uid ints loc msg db))
              = Some (CrisisPrompt s f m))
      \<longleftrightarrow> (\<exists>s f m. user_context (snd (run_intervention ext a uid ints loc msg db))
              = Some (CrisisPrompt s f m)))"
  by (simp add: run_intervention_context format_crisis_prompt_def)

text \<open>
  The rule at concrete runs: level high, interests and location given. A recommender that
  raises is called once and the activity list is empty; a recommender that answers one
  event naming the location and the anxiety level it was given puts that event in the
  payload.
\<close>

theorem run_intervention_recommender_gate_witness:
  "recommend_calls
       (snd (run_intervention
               \<lparr>recommend_events = (\<lambda>location anxiety_level interests limit. Inl ExternalError),
                generate_content = (\<lambda>p. Inr ''ok''),
                store_intervention = (\<lambda>u s m e src. Inl ExternalError)\<rparr>
               \<lparr>a_user_id = None, a_score = Some 60, a_level = Some ''high'',
                a_factors = None, a_explanation = None, a_recurring_contacts = None,
                a_days_since_social_event = None\<rparr>
               None (Some [''music'']) (Some ''College Station'') None False))
     = [(''College Station'', ''high'', [''music''], 5)]
   \<and> i_activities
       (fst (run_intervention
               \<lparr>recommend_events = (\<lambda>location anxiety_level interests limit. Inl ExternalError),
                generate_content = (\<lambda>p. Inr ''ok''),
                store_intervention = (\<lambda>u s m e src. Inl ExternalError)\<rparr>
               \<lparr>a_user_id = None, a_score = Some 60, a_level = Some ''high'',
                a_factors = None, a_explanation = None, a_recurring_contacts = None,
                a_days_since_social_event = None\<rparr>
               None (Some [''music'']) (Some ''College Station'') None False)) = []
   \<and> i_activities
       (fst (run_intervention
               \<lparr>recommend_events =
                  (\<lambda>location anxiety_level interests limit.
                     Inr [[(''name'', location), (''anxiety'', anxiety_level)]]),
                generate_content = (\<lambda>p. Inr ''ok''),
                store_intervention = (\<lambda>u s m e src. Inl ExternalError)\<rparr>
               \<lparr>a_user_id = None, a_score = Some 60, a_level = Some ''high'',
                a_factors = None, a_explanation = None, a_recurring_contacts = None,
                a_days_since_social_event = None\<rparr>
               None (Some [''music'']) (Some ''College Station'') None False))
     = [[(''name'', ''College Station''), (''anxiety'', ''high'')]]"
  using run_intervention_recommender_gate
          [of "\<lparr>recommend_events = (\<lambda>location anxiety_level interests limit. Inl ExternalError),
                generate_content = (\<lambda>p. Inr ''ok''),
                store_intervention = (\<lambda>u s m e src. Inl ExternalError)\<rparr>"
              "\<lparr>a_user_id = None, a_score = Some 60, a_level = Some ''high'',
                a_factors = None, a_explanation = None, a_recurring_contacts = None,
                a_days_since_social_event = None\<rparr>"
              None "Some [''music'']" "Some ''College Station''" None False]
        run_intervention_recommender_gate
          [of "\<lparr>recommend_events =
                  (\<lambda>location anxiety_level interests limit.
                     Inr [[(''name'', location), (''anxiety'', anxiety_level)]]),
                generate_content = (\<lambda>p. Inr ''ok''),
                store_intervention = (\<lambda>u s m e src. Inl ExternalError)\<rparr>"
              "\<lparr>a_user_id = None, a_score = Some 60, a_level = Some ''high'',
                a_factors = None, a_explanation = None, a_recurring_contacts = None,
                a_days_since_social_event = None\<rparr>"
              None "Some [''music'']" "Some ''College Station''" None False]
  by (simp add: truthy_def anxiety_mapping_def get_def)

text \<open>A score of 80 with the label low takes the crisis path.\<close>

theorem run_intervention_crisis_path_witness:
  "(76::int) \<le> 80
   \<and> user_context
       (snd (run_intervention
               \<lparr>recommend_events = (\<lambda>location anxiety_level interests limit. Inr []),
                generate_content = (\<lambda>p. Inr ''ok''),
                store_intervention = (\<lambda>u s m e src. Inl ExternalError)\<rparr>
               \<lparr>a_user_id = None, a_score = Some 80, a_level = Some ''low'',
                a_factors = None, a_explanation = None, a_recurring_contacts = None,
                a_days_since_social_event = None\<rparr>
               None None None None False))
     = Some (CrisisPrompt 80 [] ''User is checking in'')"
  using run_intervention_crisis_path
          [of "\<lparr>recommend_events = (\<lambda>location anxiety_level interests limit. Inr []),
                generate_content = (\<lambda>p. Inr ''ok''),
                store_intervention = (\<lambda>u s m e src. Inl ExternalError)\<rparr>"
              "\<lparr>a_user_id = None, a_score = Some 80, a_level = Some ''low'',
                a_factors = None, a_explanation = None, a_recurring_contacts = None,
                a_days_since_social_event = None\<rparr>"
              None None None None False]
  by (simp add: truthy_def format_crisis_prompt_def)

lemma generate_intervention_strategy_fields:
  "i_action_items (fst (generate_intervention_strategy ext a ints loc)) =
     action_items_for (case a_level a of None \<Rightarrow> ''moderate'' | Some l \<Rightarrow> l)"
  "i_message (fst (generate_intervention_strategy ext a ints loc)) =
     generate_empathetic_message (case a_level a of None \<Rightarrow> ''moderate'' | Some l \<Rightarrow> l)
       (case a_score a of None \<Rightarrow> 50 | Some s \<Rightarrow> s)"
  by (simp_all add: generate_intervention_strategy_def Let_def case_prod_beta)

lemma get_risk_level_mild: "26 \<le> x \<Longrightarrow> x \<le> 50 \<Longrightarrow> get_risk_level x = ''mild''"
  by (simp add: get_risk_level_cases)

text \<open>
  Claim C10. For an assessment whose level is outside low, moderate, elevated, high and
  critical, the action items of \<open>run_intervention\<close> and of
  \<open>generate_intervention_strategy\<close> are empty and the template message is the one of
  "moderate", whose text is written out. The label "mild" is such a level, and the
  classifier gives it to every score from 26 to 50.
\<close>

theorem unlisted_level_intervention:
  assumes "lvl \<notin> set [''low'', ''moderate'', ''elevated'', ''high'', ''critical'']"
    and "a_level a = Some lvl"
  shows "i_action_items (fst (run_intervention ext a uid ints loc msg db)) = []
     \<and> i_action_items (fst (generate_intervention_strategy ext a ints loc)) = []
     \<and> generate_empathetic_message lvl s = generate_empathetic_message ''moderate'' s
     \<and> generate_empathetic_message lvl s =
         ''I noticed you've been spending a bit more time solo lately - totally normal,\<newline>''
         @ ''        especially if you're in the middle of exams or busy season. Just wanted to\<newline>''
         @ ''        check in. How are you feeling about your social energy lately?''
     \<and> generate_empathetic_message ''moderate'' s =
         ''I noticed you've been spending a bit more time solo lately - totally normal,\<newline>''
         @ ''        especially if you're in the middle of exams or busy season. Just wanted to\<newline>''
         @ ''        check in. How are you feeling about your social energy lately?''
     \<and> i_message (fst (generate_intervention_strategy ext a ints loc))
         = generate_empathetic_message ''moderate'' s
     \<and> ((\<exists>e. generate_content ext
                 (the (user_context (snd (run_intervention ext a uid ints loc msg db)))) = Inl e)
          \<longrightarrow> i_message (fst (run_intervention ext a uid ints loc msg db))
                = generate_empathetic_message ''moderate'' s)
     \<and> ''mild'' \<notin> set [''low'', ''moderate'', ''elevated'', ''high'', ''critical'']
     \<and> (\<forall>x. 26 \<le> x \<and> x \<le> 50 \<longrightarrow> get_risk_level x = ''mild'')"
proof -
  have fb: "generate_empathetic_message lvl s' = generate_empathetic_message ''moderate'' s"
    for s'
    using assms(1) by (rule generate_empathetic_message_fallback)
  have ai: "action_items_for lvl = []"
    using assms(1) by (rule action_items_for_other)
  have 1: "i_action_items (fst (run_intervention ext a uid ints loc msg db)) = []"
    by (simp add: run_intervention_action_items assms(2) ai)
  have 2: "i_action_items (fst (generate_intervention_strategy ext a ints loc)) = []"
    by (simp add: generate_intervention_strategy_fields assms(2) ai)
  have 3: "generate_empathetic_message lvl s =
         ''I noticed you've been spending a bit more time solo lately - totally normal,\<newline>''
         @ ''        especially if you're in the middle of exams or busy season. Just wanted to\<newline>''
         @ ''        check in. How are you feeling about your social energy lately?''"
    unfolding fb by (rule message_moderate)
  have 4: "i_message (fst (generate_intervention_strategy ext a ints loc))
         = generate_empathetic_message ''moderate'' s"
    by (simp add: generate_intervention_strategy_fields assms(2) fb)
  have 5: "(\<exists>e. generate_content ext
                 (the (user_context (snd (run_intervention ext a uid ints loc msg db)))) = Inl e)
          \<longrightarrow> i_message (fst (run_intervention ext a uid ints loc msg db))
                = generate_empathetic_message ''moderate'' s"
    by (auto simp add: run_intervention_message assms(2) fb)
  have 6: "''mild'' \<notin> set [''low'', ''moderate'', ''elevated'', ''high'', ''critical'']"
    by simp
  have 7: "\<forall>x. 26 \<le> x \<and> x \<le> 50 \<longrightarrow> get_risk_level x = ''mild''"
    by (simp add: get_risk_level_mild)
  show ?thesis
    by (intro conjI) (rule 1 2 fb 3 message_moderate 4 5 6 7)+
qed

text \<open>
  The level mild with a failing language model: no action items, and the message is the
  text of the moderate template.
\<close>

theorem unlisted_level_intervention_witness:
  "i_action_items
       (fst (run_intervention
               \<lparr>recommend_events = (\<lambda>location anxiety_level interests limit. Inr []),
                generate_content = (\<lambda>p. Inl ExternalError),
                store_intervention = (\<lambda>u s m e src. Inl ExternalError)\<rparr>
               \<lparr>a_user_id = None, a_score = Some 40, a_level = Some ''mild'',
                a_factors = None, a_explanation = None, a_recurring_contacts = None,
                a_days_since_social_event = None\<rparr>
               None None None None False)) = []
   \<and> i_message
       (fst (run_intervention
               \<lparr>recommend_events = (\<lambda>location anxiety_level interests limit. Inr []),
                generate_content = (\<lambda>p. Inl ExternalError),
                store_intervention = (\<lambda>u s m e src. Inl ExternalError)\<rparr>
               \<lparr>a_user_id = None, a_score = Some 40, a_level = Some ''mild'',
                a_factors = None, a_explanation = None, a_recurring_contacts = None,
                a_days_since_social_event = None\<rparr>
               None None None None False))
     = ''I noticed you've been spending a bit more time solo lately - totally normal,\<newline>''
       @ ''        especially if you're in the middle of exams or busy season. Just wanted to\<newline>''
       @ ''        check in. How are you feeling about your social energy lately?''"
proof -
  have lvl: "''mild'' \<notin> set [''low'', ''moderate'', ''elevated'', ''high'', ''critical'']"
    by simp
  have lev: "a_level \<lparr>a_user_id = None, a_score = Some 40, a_level = Some ''mild'',
                a_factors = None, a_explanation = None, a_recurring_contacts = None,
                a_days_since_social_event = None\<rparr> = Some ''mild''"
    by simp
  note th = unlisted_level_intervention [OF lvl lev,
              of "\<lparr>recommend_events = (\<lambda>location anxiety_level interests limit. Inr []),
                generate_content = (\<lambda>p. Inl ExternalError),
                store_intervention = (\<lambda>u s m e src. Inl ExternalError)\<rparr>"
                 None None None None False 40]
  have items: "i_action_items
       (fst (run_intervention
               \<lparr>recommend_events = (\<lambda>location anxiety_level interests limit. Inr []),
                generate_content = (\<lambda>p. Inl ExternalError),
                store_intervention = (\<lambda>u s m e src. Inl ExternalError)\<rparr>
               \<lparr>a_user_id = None, a_score = Some 40, a_level = Some ''mild'',
                a_factors = None, a_explanation = None, a_recurring_contacts = None,
                a_days_since_social_event = None\<rparr>
               None None None None False)) = []"
    using th by (rule conjunct1)
  have modtext: "generate_empathetic_message ''moderate'' 40 =
       ''I noticed you've been spending a bit more time solo lately - totally normal,\<newline>''
       @ ''        especially if you're in the middle of exams or busy season. Just wanted to\<newline>''
       @ ''        check in. How are you feeling about your social energy lately?''"
    using th by blast
  have fails: "\<exists>e. generate_content \<lparr>recommend_events = (\<lambda>location anxiety_level interests limit. Inr []),
                generate_content = (\<lambda>p. Inl ExternalError),
                store_intervention = (\<lambda>u s m e src. Inl ExternalError)\<rparr>
                 (the (user_context (snd (run_intervention
               \<lparr>recommend_events = (\<lambda>location anxiety_level interests limit. Inr []),
                generate_content = (\<lambda>p. Inl ExternalError),
                store_intervention = (\<lambda>u s m e src. Inl ExternalError)\<rparr>
               \<lparr>a_user_id = None, a_score = Some 40, a_level = Some ''mild'',
                a_factors = None, a_explanation = None, a_recurring_contacts = None,
                a_days_since_social_event = None\<rparr>
               None None None None False)))) = Inl e"
    by simp
  have "i_message
       (fst (run_intervention
               \<lparr>recommend_events = (\<lambda>location anxiety_level interests limit. Inr []),
                generate_content = (\<lambda>p. Inl ExternalError),
                store_intervention = (\<lambda>u s m e src. Inl ExternalError)\<rparr>
               \<lparr>a_user_id = None, a_score = Some 40, a_level = Some ''mild'',
                a_factors = None, a_explanation = None, a_recurring_contacts = None,
                a_days_since_social_event = None\<rparr>
               None None None None False))
     = generate_empathetic_message ''moderate'' 40"
    using th fails by blast
  with items modtext show ?thesis by simp
qed

lemma crisis_scenario_risk:
  "calculate_risk
       [(''baseline_listening_hours'', 15), (''current_listening_hours'', 45),
        (''late_night_percentage'', 85), (''baseline_valence'', 0.70),
        (''current_valence'', 0.25), (''repeat_listening_percentage'', 65)]
       [(''baseline_social_events'', 8), (''current_social_events'', 0),
        (''declined_invitation_rate'', 100), (''baseline_unique_contacts'', 5),
        (''current_unique_contacts'', 0)]
       None
     = Inr \<lparr>r_score = 91, r_level = ''high'',
            r_factors = [(''spotify_score'', 100), (''calendar_score'', 100),
                         (''baseline_score'', 10), (''total_score'', 91)],
            r_explanation =
              [ListeningIncreased 15 45, LateNight 85, MoodShift 0.70 0.25,
               RepeatListening 65, SocialDecline 100 8 0, ReducedContact 5 0]\<rparr>"
  by (simp add: calculate_risk_def calculate_spotify_score_def calculate_calendar_score_def
        calculate_baseline_risk_def SPOTIFY_WEIGHT_def CALENDAR_WEIGHT_def BASELINE_WEIGHT_def
        get_risk_level_cases py_round_def py_round_ndigits_def generate_risk_explanation_def
        py_truediv_def get_def)

text \<open>
  Claim C4. For the scenario (events 8 to 0, declined rate 100, contacts 5 to 0, listening
  15h to 45h, late night 85, valence 0.70 to 0.25, repeat 65, no baseline) the score is
  meant to be at least 76 and the message of the intervention, also on the template
  fallback, to contain the crisis resources such as "988". The score is 91 and the level
  is high, the crisis prompt is built, but when the language model fails the message is
  the template of the level high, which holds none of the crisis resources.
\<close>

theorem crisis_scenario_fallback_message:
  "calculate_loneliness_risk_score ''user''
       [(''baseline_listening_hours'', 15), (''current_listening_hours'', 45),
        (''late_night_percentage'', 85), (''baseline_valence'', 0.70),
        (''current_valence'', 0.25), (''repeat_listening_percentage'', 65)]
       [(''baseline_social_events'', 8), (''current_social_events'', 0),
        (''declined_invitation_rate'', 100), (''baseline_unique_contacts'', 5),
        (''current_unique_contacts'', 0)]
       None
     = Inr \<lparr>a_user_id = Some ''user'', a_score = Some 91, a_level = Some ''high'',
            a_factors = Some [(''spotify_score'', 100), (''calendar_score'', 100),
                              (''baseline_score'', 10), (''total_score'', 91)],
            a_explanation =
              Some [ListeningIncreased 15 45, LateNight 85, MoodShift 0.70 0.25,
                    RepeatListening 65, SocialDecline 100 8 0, ReducedContact 5 0],
            a_recurring_contacts = None, a_days_since_social_event = None\<rparr>
   \<and> (76::int) \<le> 91
   \<and> user_context
       (snd (run_intervention
               \<lparr>recommend_events = (\<lambda>location anxiety_level interests limit. Inr []),
                generate_content = (\<lambda>p. Inl ExternalError),
                store_intervention = (\<lambda>u s m e src. Inl ExternalError)\<rparr>
               \<lparr>a_user_id = Some ''user'', a_score = Some 91, a_level = Some ''high'',
                a_factors = Some [(''spotify_score'', 100), (''calendar_score'', 100),
                                  (''baseline_score'', 10), (''total_score'', 91)],
                a_explanation =
                  Some [ListeningIncreased 15 45, LateNight 85, MoodShift 0.70 0.25,
                        RepeatListening 65, SocialDecline 100 8 0, ReducedContact 5 0],
                a_recurring_contacts = None, a_days_since_social_event = None\<rparr>
               (Some ''user'') None None None False))
     = Some (CrisisPrompt 91
               [(''spotify_score'', 100), (''calendar_score'', 100),
                (''baseline_score'', 10), (''total_score'', 91)]
               ''User is checking in'')
   \<and> i_message
       (fst (run_intervention
               \<lparr>recommend_events = (\<lambda>location anxiety_level interests limit. Inr []),
                generate_content = (\<lambda>p. Inl ExternalError),
                store_intervention = (\<lambda>u s m e src. Inl ExternalError)\<rparr>
               \<lparr>a_user_id = Some ''user'', a_score = Some 91, a_level = Some ''high'',
                a_factors = Some [(''spotify_score'', 100), (''calendar_score'', 100),
                                  (''baseline_score'', 10), (''total_score'', 91)],
                a_explanation =
                  Some [ListeningIncreased 15 45, LateNight 85, MoodShift 0.70 0.25,
                        RepeatListening 65, SocialDecline 100 8 0, ReducedContact 5 0],
                a_recurring_contacts = None, a_days_since_social_event = None\<rparr>
               (Some ''user'') None None None False))
     = generate_empathetic_message ''high'' 91
   \<and> \<not> contains ''988'' (generate_empathetic_message ''high'' 91)
   \<and> \<not> contains ''741741'' (generate_empathetic_message ''high'' 91)
   \<and> \<not> contains ''(979) 845-4427'' (generate_empathetic_message ''high'' 91)"
proof (intro conjI)
  show "calculate_loneliness_risk_score ''user''
       [(''baseline_listening_hours'', 15), (''current_listening_hours'', 45),
        (''late_night_percentage'', 85), (''baseline_valence'', 0.70),
        (''current_valence'', 0.25), (''repeat_listening_percentage'', 65)]
       [(''baseline_social_events'', 8), (''current_social_events'', 0),
        (''declined_invitation_rate'', 100), (''baseline_unique_contacts'', 5),
        (''current_unique_contacts'', 0)]
       None
     = Inr \<lparr>a_user_id = Some ''user'', a_score = Some 91, a_level = Some ''high'',
            a_factors = Some [(''spotify_score'', 100), (''calendar_score'', 100),
                              (''baseline_score'', 10), (''total_score'', 91)],
            a_explanation =
              Some [ListeningIncreased 15 45, LateNight 85, MoodShift 0.70 0.25,
                    RepeatListening 65, SocialDecline 100 8 0, ReducedContact 5 0],
            a_recurring_contacts = None, a_days_since_social_event = None\<rparr>"
    unfolding calculate_loneliness_risk_score_def crisis_scenario_risk by simp
  show "\<not> contains ''988'' (generate_empathetic_message ''high'' 91)"
    unfolding message_high by simp
  show "\<not> contains ''741741'' (generate_empathetic_message ''high'' 91)"
    unfolding message_high by simp
  show "\<not> contains ''(979) 845-4427'' (generate_empathetic_message ''high'' 91)"
    unfolding message_high by simp
qed (simp_all add: run_intervention_context run_intervention_message format_crisis_prompt_def
       truthy_def)


end
